theory Spec2Isabelle
  imports Complex_Main "HOL-Library.Sublist"
begin

section \<open>The GeocodeFarm geocoder (geopy/geocoders/geocodefarm.py)\<close>

text \<open>
  A shallow embedding of the class \<open>GeocodeFarm\<close>: the request builders \<open>geocode\<close> and
  \<open>reverse\<close>, the decoder \<open>parse_code\<close> and the response interpreter
  \<open>_parse_json\<close> with \<open>_check_for_api_errors\<close>. Python identifiers that start with
  an underscore lose it (\<open>parse_json\<close>, \<open>check_for_api_errors\<close>).
\<close>

subsection \<open>Decoded JSON values and Python exceptions\<close>

text \<open>
  The transport hands over a decoded JSON body: Python's \<open>None\<close>, \<open>bool\<close>, numbers,
  \<open>str\<close>, \<open>list\<close> and \<open>dict\<close>. A number is modelled by the real it denotes (NaN and
  the infinities are outside the model). A \<open>dict\<close> is an association list in insertion
  order, each key at most once; \<open>map_of\<close> looks a key up. A \<open>str\<close> is a \<open>string\<close>.
\<close>

datatype json =
    JNull
  | JBool bool
  | JNum real
  | JStr string
  | JList "json list"
  | JObj "(string \<times> json) list"

text \<open>
  Every exception the code can raise is a constructor. The three geopy exceptions carry
  the argument they are raised with; \<open>TransportError\<close> stands for whatever
  \<open>_call_geocoder\<close> raises (timeouts, connection failures, malformed bodies).
\<close>

datatype pyerr =
    KeyError string
  | AttributeError
  | TypeError
  | IndexError
  | ValueError string
  | GeocoderAuthenticationFailure json
  | GeocoderQuotaExceeded json
  | GeocoderServiceError json
  | TransportError string

text \<open>Truthiness, as \<open>if x:\<close> and \<open>x and y\<close> test it.\<close>

fun truthy :: "json \<Rightarrow> bool" where
  "truthy JNull = False"
| "truthy (JBool b) = b"
| "truthy (JNum r) = (r \<noteq> 0)"
| "truthy (JStr s) = (s \<noteq> [])"
| "truthy (JList xs) = (xs \<noteq> [])"
| "truthy (JObj kvs) = (kvs \<noteq> [])"

text \<open>
  \<open>d.get(key, default)\<close>: only a \<open>dict\<close> has the method among decoded JSON values;
  on anything else the attribute lookup raises \<open>AttributeError\<close>.
\<close>

fun py_get :: "json \<Rightarrow> string \<Rightarrow> json \<Rightarrow> pyerr + json" where
  "py_get (JObj kvs) k d = Inr (case map_of kvs k of None \<Rightarrow> d | Some v \<Rightarrow> v)"
| "py_get _ k d = Inl AttributeError"

text \<open>
  \<open>x[key]\<close> with a string key: \<open>KeyError\<close> on a \<open>dict\<close> without the key,
  \<open>TypeError\<close> on every other decoded value.
\<close>

fun py_getitem :: "json \<Rightarrow> string \<Rightarrow> pyerr + json" where
  "py_getitem (JObj kvs) k = (case map_of kvs k of None \<Rightarrow> Inl (KeyError k) | Some v \<Rightarrow> Inr v)"
| "py_getitem _ k = Inl TypeError"

text \<open>
  \<open>for x in v\<close>: a list gives its elements, a \<open>str\<close> its characters as one-character
  strings, a \<open>dict\<close> its keys; \<open>None\<close>, booleans and numbers raise \<open>TypeError\<close>.
\<close>

fun py_iter :: "json \<Rightarrow> pyerr + json list" where
  "py_iter (JList xs) = Inr xs"
| "py_iter (JStr s) = Inr (map (\<lambda>c. JStr [c]) s)"
| "py_iter (JObj kvs) = Inr (map (\<lambda>kv. JStr (fst kv)) kvs)"
| "py_iter _ = Inl TypeError"

text \<open>The substring test of \<open>needle in s\<close> on two strings.\<close>

fun is_substring :: "string \<Rightarrow> string \<Rightarrow> bool" where
  "is_substring n [] = (n = [])"
| "is_substring n (c # cs) = (prefix n (c # cs) \<or> is_substring n cs)"

text \<open>
  \<open>needle in v\<close> for a string needle: substring of a \<open>str\<close>, element of a list, key of
  a \<open>dict\<close>; \<open>TypeError\<close> on \<open>None\<close>, booleans and numbers.
\<close>

fun py_in :: "string \<Rightarrow> json \<Rightarrow> pyerr + bool" where
  "py_in n (JStr s) = Inr (is_substring n s)"
| "py_in n (JList xs) = Inr (JStr n \<in> set xs)"
| "py_in n (JObj kvs) = Inr (n \<in> set (map fst kvs))"
| "py_in n _ = Inl TypeError"

text \<open>
  A \<open>dict\<close> lookup hashes its key: lists and dicts are unhashable and make
  \<open>d.get(key)\<close> raise \<open>TypeError\<close>.
\<close>

fun py_hashable :: "json \<Rightarrow> bool" where
  "py_hashable (JList xs) = False"
| "py_hashable (JObj kvs) = False"
| "py_hashable _ = True"

subsection \<open>Sequencing\<close>

text \<open>
  A statement that may raise is followed by the rest of the block only when it returns:
  \<open>bind m f\<close> runs \<open>f\<close> on the value of \<open>m\<close> and passes an exception on.
\<close>

fun bind :: "pyerr + 'a \<Rightarrow> ('a \<Rightarrow> pyerr + 'b) \<Rightarrow> pyerr + 'b" where
  "bind (Inl e) f = Inl e"
| "bind (Inr x) f = f x"

subsection \<open>Locations\<close>

text \<open>
  \<open>float\<close> is Python's builtin: it is a parameter \<open>pyfloat\<close> of the decoder, returning
  the converted number or the exception (\<open>ValueError\<close> on a string that is no number,
  \<open>TypeError\<close> on a list). A coordinate of a location is either the value read from the
  response, left as it is, or the result of \<open>float\<close>.
\<close>

datatype coordinate = Unconverted json | Float real

text \<open>
  The class \<open>Location\<close> (geopy/location.py) is not among the sources. A location is
  the record of the three arguments \<open>parse_code\<close> constructs it with: the display name,
  the coordinate pair and the raw result entry.
\<close>

record location =
  address :: json
  point :: "coordinate \<times> coordinate"
  raw :: json

subsection \<open>parse\_code\<close>

text \<open>The body of the loop of \<open>parse_code\<close>, for one result entry.\<close>

definition parse_result :: "(json \<Rightarrow> pyerr + real) \<Rightarrow> json \<Rightarrow> pyerr + location" where
  "parse_result pyfloat result =
     bind (py_get result ''COORDINATES'' (JObj [])) (\<lambda>coordinates.
     bind (py_get result ''ADDRESS'' (JObj [])) (\<lambda>addr.
     bind (py_get coordinates ''latitude'' JNull) (\<lambda>latitude.
     bind (py_get coordinates ''longitude'' JNull) (\<lambda>longitude.
     bind (py_get addr ''address_returned'' JNull) (\<lambda>placename0.
     bind (if placename0 = JNull then py_get addr ''address'' JNull else Inr placename0) (\<lambda>placename.
     if truthy latitude \<and> truthy longitude then
       bind (pyfloat latitude) (\<lambda>lat.
       bind (pyfloat longitude) (\<lambda>lon.
       Inr \<lparr>address = placename, point = (Float lat, Float lon), raw = result\<rparr>))
     else
       Inr \<lparr>address = placename,
            point = (Unconverted latitude, Unconverted longitude), raw = result\<rparr>))))))"

text \<open>
  The loop: \<open>places\<close> is the list built so far, each location is appended to it, and
  the first exception ends the loop.
\<close>

fun parse_loop :: "(json \<Rightarrow> pyerr + real) \<Rightarrow> json list \<Rightarrow> location list \<Rightarrow> pyerr + location list" where
  "parse_loop pyfloat [] places = Inr places"
| "parse_loop pyfloat (result # rest) places =
     bind (parse_result pyfloat result) (\<lambda>loc. parse_loop pyfloat rest (places @ [loc]))"

definition parse_code :: "(json \<Rightarrow> pyerr + real) \<Rightarrow> json \<Rightarrow> pyerr + location list" where
  "parse_code pyfloat results =
     bind (py_get results ''RESULTS'' JNull) (\<lambda>rs.
     bind (py_iter rs) (\<lambda>entries.
     parse_loop pyfloat entries []))"

subsection \<open>The response interpreter\<close>

text \<open>
  The table \<open>access_error_to_exception\<close> and its lookup with the default
  \<open>GeocoderServiceError\<close> are \<open>exception_cls\<close>: the lookup hashes the key first.
\<close>

definition exception_cls :: "json \<Rightarrow> pyerr + (json \<Rightarrow> pyerr)" where
  "exception_cls access_error =
     (if \<not> py_hashable access_error then Inl TypeError
      else if access_error = JStr ''API_KEY_INVALID'' then Inr GeocoderAuthenticationFailure
      else if access_error = JStr ''OVER_QUERY_LIMIT'' then Inr GeocoderQuotaExceeded
      else Inr GeocoderServiceError)"

text \<open>
  \<open>_check_for_api_errors\<close> returns nothing or raises: \<open>Inr ()\<close> is the plain return.
\<close>

definition check_for_api_errors :: "json \<Rightarrow> pyerr + unit" where
  "check_for_api_errors geocoding_results =
     bind (py_get geocoding_results ''STATUS'' (JObj [])) (\<lambda>status_result.
     bind (py_get status_result ''status'' (JStr [])) (\<lambda>status.
     bind (py_in ''NO_RESULTS'' status) (\<lambda>no_results.
     if no_results then Inr ()
     else if status = JStr ''SUCCESS'' then Inr ()
     else
       bind (py_get status_result ''access'' JNull) (\<lambda>access_error.
       bind (exception_cls access_error) (\<lambda>cls.
       Inl (cls access_error))))))"

text \<open>What \<open>_parse_json\<close> returns: \<open>None\<close>, one location, or the list of locations.\<close>

datatype py_result = RNone | RLocation location | RList "location list"

text \<open>\<open>places[0]\<close> raises \<open>IndexError\<close> on the empty list.\<close>

fun first_place :: "location list \<Rightarrow> pyerr + py_result" where
  "first_place [] = Inl IndexError"
| "first_place (p # ps) = Inr (RLocation p)"

definition parse_json :: "(json \<Rightarrow> pyerr + real) \<Rightarrow> json \<Rightarrow> bool \<Rightarrow> pyerr + py_result" where
  "parse_json pyfloat api_result exactly_one =
     (if api_result = JNull then Inr RNone
      else
        bind (py_getitem api_result ''geocoding_results'') (\<lambda>geocoding_results.
        bind (check_for_api_errors geocoding_results) (\<lambda>u.
        bind (py_get geocoding_results ''STATUS'' (JObj [])) (\<lambda>status_result.
        bind (py_get status_result ''status'' (JStr [])) (\<lambda>status.
        bind (py_in ''NO_RESULTS'' status) (\<lambda>no_results.
        if no_results then Inr RNone
        else
          bind (parse_code pyfloat geocoding_results) (\<lambda>places.
          if exactly_one then first_place places else Inr (RList places))))))))"

subsection \<open>Strings: split, strip and urlencode\<close>

text \<open>
  \<open>s.split(sep)\<close> for a one-character separator: the pieces between the separators,
  at least one piece (the empty string splits into one empty piece).
\<close>

fun split_on :: "char \<Rightarrow> string \<Rightarrow> string list" where
  "split_on sep [] = [[]]"
| "split_on sep (c # cs) =
     (if c = sep then [] # split_on sep cs
      else (case split_on sep cs of [] \<Rightarrow> [[c]] | p # ps \<Rightarrow> (c # p) # ps))"

text \<open>
  \<open>s.strip()\<close> removes the leading and the trailing whitespace characters of a
  \<open>str\<close>, those of \<open>str.isspace\<close>: U+0009 to U+000D, U+001C to U+0020, U+0085,
  U+00A0, U+1680, U+2000 to U+200A, U+2028, U+2029, U+202F, U+205F and U+3000. A
  \<open>string\<close> holds the UTF-8 bytes of the text, so a whitespace character is one, two or
  three bytes: the ASCII ones are themselves, U+0085 and U+00A0 are \<open>C2 85\<close> and
  \<open>C2 A0\<close>, U+1680 is \<open>E1 9A 80\<close>, U+2000 to U+200A are \<open>E2 80 80\<close> to
  \<open>E2 80 8A\<close>, U+2028, U+2029 and U+202F are \<open>E2 80 A8\<close>, \<open>E2 80 A9\<close> and
  \<open>E2 80 AF\<close>, U+205F is \<open>E2 81 9F\<close> and U+3000 is \<open>E3 80 80\<close>. In UTF-8 no
  character's bytes occur inside or across other characters, so matching these byte
  sequences at the two ends of the text is matching the characters.
\<close>

definition space1 :: "char \<Rightarrow> bool" where
  "space1 a =
     (let n = (of_char a :: nat) in (0x09 \<le> n \<and> n \<le> 0x0D) \<or> (0x1C \<le> n \<and> n \<le> 0x20))"

definition space2 :: "char \<Rightarrow> char \<Rightarrow> bool" where
  "space2 a b =
     ((of_char a :: nat) = 0xC2 \<and> ((of_char b :: nat) = 0x85 \<or> (of_char b :: nat) = 0xA0))"

definition space3 :: "char \<Rightarrow> char \<Rightarrow> char \<Rightarrow> bool" where
  "space3 a b c =
     (let x = (of_char a :: nat); y = (of_char b :: nat); z = (of_char c :: nat) in
      (x = 0xE1 \<and> y = 0x9A \<and> z = 0x80) \<or>
      (x = 0xE2 \<and> y = 0x80 \<and>
         ((0x80 \<le> z \<and> z \<le> 0x8A) \<or> z = 0xA8 \<or> z = 0xA9 \<or> z = 0xAF)) \<or>
      (x = 0xE2 \<and> y = 0x81 \<and> z = 0x9F) \<or>
      (x = 0xE3 \<and> y = 0x80 \<and> z = 0x80))"

text \<open>\<open>is_space w\<close>: the bytes \<open>w\<close> are one whitespace character.\<close>

fun is_space :: "string \<Rightarrow> bool" where
  "is_space [a] = space1 a"
| "is_space [a, b] = space2 a b"
| "is_space [a, b, c] = space3 a b c"
| "is_space w = False"

text \<open>Whitespace characters are dropped from the front as long as there is one.\<close>

fun lstrip :: "string \<Rightarrow> string" where
  "lstrip [] = []"
| "lstrip [a] = (if space1 a then [] else [a])"
| "lstrip [a, b] =
     (if space1 a then lstrip [b] else if space2 a b then [] else [a, b])"
| "lstrip (a # b # c # t) =
     (if space1 a then lstrip (b # c # t)
      else if space2 a b then lstrip (c # t)
      else if space3 a b c then lstrip t
      else a # b # c # t)"

text \<open>
  The same from the back: \<open>rstrip_rev\<close> works on the reversed text, where the bytes
  of the last character come first and in reverse order.
\<close>

fun rstrip_rev :: "string \<Rightarrow> string" where
  "rstrip_rev [] = []"
| "rstrip_rev [c] = (if space1 c then [] else [c])"
| "rstrip_rev [c, b] =
     (if space1 c then rstrip_rev [b] else if space2 b c then [] else [c, b])"
| "rstrip_rev (c # b # a # t) =
     (if space1 c then rstrip_rev (b # a # t)
      else if space2 b c then rstrip_rev (a # t)
      else if space3 a b c then rstrip_rev t
      else c # b # a # t)"

definition rstrip :: "string \<Rightarrow> string" where
  "rstrip s = rev (rstrip_rev (rev s))"

definition py_strip :: "string \<Rightarrow> string" where
  "py_strip s = rstrip (lstrip s)"

text \<open>
  What stripping means, to state it of \<open>py_strip\<close>: \<open>ws_only l\<close> says that \<open>l\<close>
  is made of whitespace characters only, and \<open>strips_to s p\<close> that \<open>p\<close> is \<open>s\<close>
  without a run of whitespace at each end and itself neither begins nor ends with a
  whitespace character.
\<close>

inductive ws_only :: "string \<Rightarrow> bool" where
  ws_empty: "ws_only []"
| ws_more: "is_space w \<Longrightarrow> ws_only l \<Longrightarrow> ws_only (w @ l)"

definition strips_to :: "string \<Rightarrow> string \<Rightarrow> bool" where
  "strips_to s p \<longleftrightarrow>
     (\<exists>l r. ws_only l \<and> ws_only r \<and> s = l @ p @ r) \<and>
     (\<forall>w. is_space w \<longrightarrow> \<not> prefix w p \<and> \<not> suffix w p)"

text \<open>
  \<open>urlencode\<close> comes from geopy.compat and is the standard library's: every key and
  value goes through \<open>quote_plus\<close>, the pairs are written \<open>key=value\<close> and joined by
  \<open>&\<close>, in the order of the \<open>dict\<close>. \<open>quote_plus\<close> keeps letters, digits and
  \<open>_.-~\<close> (the unreserved characters, as Python 3.7 and later do), writes a space as
  \<open>+\<close> and every other byte as \<open>%\<close> and two upper-case hexadecimal digits.
\<close>

definition always_safe :: "char \<Rightarrow> bool" where
  "always_safe c =
     (c \<in> set ''ABCDEFGHIJKLMNOPQRSTUVWXYZabcdefghijklmnopqrstuvwxyz0123456789_.-~'')"

definition hexdigit :: "nat \<Rightarrow> char" where
  "hexdigit n = (if n < 10 then char_of (48 + n) else char_of (55 + n))"

definition quote_char :: "char \<Rightarrow> string" where
  "quote_char c =
     (if always_safe c then [c]
      else if c = CHR '' '' then ''+''
      else [CHR ''%'', hexdigit ((of_char c :: nat) div 16), hexdigit ((of_char c :: nat) mod 16)])"

definition quote_plus :: "string \<Rightarrow> string" where
  "quote_plus s = concat (map quote_char s)"

fun join :: "string \<Rightarrow> string list \<Rightarrow> string" where
  "join sep [] = []"
| "join sep [x] = x"
| "join sep (x # y # ys) = x @ sep @ join sep (y # ys)"

definition urlencode :: "(string \<times> string) list \<Rightarrow> string" where
  "urlencode params = join ''&'' (map (\<lambda>(k, v). quote_plus k @ ''='' @ quote_plus v) params)"

subsection \<open>The geocoder and its two requests\<close>

text \<open>
  The attributes of a \<open>GeocodeFarm\<close> object that the requests read. \<open>__init__\<close> passes
  the scheme \<open>https\<close> to the base class, which is not among the sources and keeps it
  as \<open>self.scheme\<close> together with the format string.
\<close>

record geocoder =
  api_key :: "string option"
  format_string :: string
  scheme :: string
  api :: string
  reverse_api :: string

definition GeocodeFarm_init :: "string option \<Rightarrow> string \<Rightarrow> geocoder" where
  "GeocodeFarm_init key fmt =
     \<lparr>api_key = key, format_string = fmt, scheme = ''https'',
      api = ''https'' @ ''://www.geocode.farm/v3/json/forward/'',
      reverse_api = ''https'' @ ''://www.geocode.farm/v3/json/reverse/''\<rparr>"

text \<open>
  \<open>if self.api_key: params['key'] = self.api_key\<close>: the pair that is added to the
  parameters, none for \<open>None\<close> and for the empty string.
\<close>

fun key_param :: "string option \<Rightarrow> (string \<times> string) list" where
  "key_param None = []"
| "key_param (Some k) = (if k = [] then [] else [(''key'', k)])"

text \<open>
  The collaborators are parameters: \<open>percent\<close> is the operator \<open>%\<close> on a template
  and a string, \<open>call_geocoder\<close> the transport \<open>_call_geocoder\<close> (the decoded body,
  \<open>JNull\<close> for \<open>None\<close>, or the exception it raises), \<open>coerce\<close> the base class's
  \<open>_coerce_point_to_string\<close>. A request returns its outcome together with the list of
  the URLs it handed to the transport, so that a request that never reaches the network
  has the empty list. The debug log is left out.
\<close>

definition geocode ::
  "geocoder \<Rightarrow> (json \<Rightarrow> pyerr + real) \<Rightarrow> (string \<Rightarrow> string \<Rightarrow> pyerr + string) \<Rightarrow>
   (string \<Rightarrow> pyerr + json) \<Rightarrow> string \<Rightarrow> bool \<Rightarrow> (pyerr + py_result) \<times> string list" where
  "geocode self pyfloat percent call_geocoder query exactly_one =
     (case percent (format_string self) query of
        Inl e \<Rightarrow> (Inl e, [])
      | Inr formatted \<Rightarrow>
          (let params = (''addr'', formatted) # key_param (api_key self);
               url = api self @ ''?'' @ urlencode params
           in (bind (call_geocoder url) (\<lambda>body. parse_json pyfloat body exactly_one), [url])))"

text \<open>
  \<open>lat, lon = [...]\<close> unpacks a list of exactly two elements and raises \<open>ValueError\<close>
  on any other length.
\<close>

fun unpack_pair :: "string list \<Rightarrow> pyerr + string \<times> string" where
  "unpack_pair [a, b] = Inr (a, b)"
| "unpack_pair [] = Inl (ValueError ''not enough values to unpack'')"
| "unpack_pair [a] = Inl (ValueError ''not enough values to unpack'')"
| "unpack_pair (a # b # c # cs) = Inl (ValueError ''too many values to unpack'')"

text \<open>
  The \<open>try\<close> block of \<open>reverse\<close> and its handler: a \<open>ValueError\<close> raised inside
  (by the helper or by the unpacking) is replaced, any other exception passes.
\<close>

definition reverse_pair :: "('q \<Rightarrow> pyerr + string) \<Rightarrow> 'q \<Rightarrow> pyerr + string \<times> string" where
  "reverse_pair coerce query =
     (case bind (coerce query) (\<lambda>s. unpack_pair (map py_strip (split_on CHR '','' s))) of
        Inl (ValueError m) \<Rightarrow> Inl (ValueError ''Must be a coordinate pair or Point'')
      | Inl e \<Rightarrow> Inl e
      | Inr p \<Rightarrow> Inr p)"

definition reverse ::
  "geocoder \<Rightarrow> (json \<Rightarrow> pyerr + real) \<Rightarrow> ('q \<Rightarrow> pyerr + string) \<Rightarrow>
   (string \<Rightarrow> pyerr + json) \<Rightarrow> 'q \<Rightarrow> bool \<Rightarrow> (pyerr + py_result) \<times> string list" where
  "reverse self pyfloat coerce call_geocoder query exactly_one =
     (case reverse_pair coerce query of
        Inl e \<Rightarrow> (Inl e, [])
      | Inr (lat, lon) \<Rightarrow>
          (let params = [(''lat'', lat), (''lon'', lon)] @ key_param (api_key self);
               url = reverse_api self @ ''?'' @ urlencode params
           in (bind (call_geocoder url) (\<lambda>body. parse_json pyfloat body exactly_one), [url])))"

subsection \<open>Decoding a URL, to state the round trip\<close>

text \<open>
  The repository has no decoder; the round trip of the request builder is stated against
  the standard one: the query string is what follows the first \<open>?\<close>, \<open>parse_qsl\<close>
  (keeping blank values) splits it at \<open>&\<close>, each field at its first \<open>=\<close>, and
  \<open>unquote_plus\<close> turns \<open>+\<close> into a space and \<open>%XX\<close> into the byte.
\<close>

definition hexval :: "char \<Rightarrow> nat option" where
  "hexval c =
     (let n = (of_char c :: nat) in
      if 48 \<le> n \<and> n \<le> 57 then Some (n - 48)
      else if 65 \<le> n \<and> n \<le> 70 then Some (n - 55)
      else if 97 \<le> n \<and> n \<le> 102 then Some (n - 87)
      else None)"

fun unquote_plus :: "string \<Rightarrow> string" where
  "unquote_plus [] = []"
| "unquote_plus [c] = [if c = CHR ''+'' then CHR '' '' else c]"
| "unquote_plus [c, a] =
     (if c = CHR ''+'' then CHR '' '' else c) # unquote_plus [a]"
| "unquote_plus (c # a # b # t) =
     (if c = CHR ''+'' then CHR '' '' # unquote_plus (a # b # t)
      else if c = CHR ''%'' \<and> hexval a \<noteq> None \<and> hexval b \<noteq> None
      then char_of (16 * the (hexval a) + the (hexval b)) # unquote_plus t
      else c # unquote_plus (a # b # t))"

definition parse_pair :: "string \<Rightarrow> string \<times> string" where
  "parse_pair field =
     (unquote_plus (takeWhile (\<lambda>c. c \<noteq> CHR ''='') field),
      unquote_plus (drop 1 (dropWhile (\<lambda>c. c \<noteq> CHR ''='') field)))"

definition parse_qsl :: "string \<Rightarrow> (string \<times> string) list" where
  "parse_qsl qs = map parse_pair (filter (\<lambda>field. field \<noteq> []) (split_on CHR ''&'' qs))"

definition url_query :: "string \<Rightarrow> string" where
  "url_query url = drop 1 (dropWhile (\<lambda>c. c \<noteq> CHR ''?'') url)"

subsection \<open>Instances of the builtins, for the concrete examples\<close>

text \<open>
  The theorems below hold for every \<open>pyfloat\<close> and every \<open>percent\<close>. The concrete
  examples need one of each. \<open>float_of_json\<close> is \<open>float\<close> on \<open>None\<close>, lists and
  dicts (\<open>TypeError\<close>), on booleans and numbers, and on strings of the form of an
  optional sign, digits and an optional fraction; every other string it rejects with
  \<open>ValueError\<close>, so the examples use no string with an exponent, blanks or underscores.
\<close>

definition digit_of :: "char \<Rightarrow> nat option" where
  "digit_of c = (let n = (of_char c :: nat) in if 48 \<le> n \<and> n \<le> 57 then Some (n - 48) else None)"

fun decimal_digits :: "string \<Rightarrow> nat \<Rightarrow> nat option" where
  "decimal_digits [] acc = Some acc"
| "decimal_digits (c # cs) acc =
     (case digit_of c of None \<Rightarrow> None | Some d \<Rightarrow> decimal_digits cs (10 * acc + d))"

definition unsigned_decimal :: "string \<Rightarrow> real option" where
  "unsigned_decimal s =
     (let ip = takeWhile (\<lambda>c. c \<noteq> CHR ''.'') s;
          fp = drop 1 (dropWhile (\<lambda>c. c \<noteq> CHR ''.'') s)
      in if ip = [] \<and> fp = [] then None
         else (case (decimal_digits ip 0, decimal_digits fp 0) of
                 (Some i, Some f) \<Rightarrow> Some (real i + real f / 10 ^ length fp)
               | _ \<Rightarrow> None))"

definition signed_decimal :: "string \<Rightarrow> real option" where
  "signed_decimal s =
     (case s of
        [] \<Rightarrow> None
      | c # cs \<Rightarrow>
          if c = CHR ''-'' then map_option uminus (unsigned_decimal cs)
          else if c = CHR ''+'' then unsigned_decimal cs
          else unsigned_decimal s)"

fun float_of_json :: "json \<Rightarrow> pyerr + real" where
  "float_of_json (JNum r) = Inr r"
| "float_of_json (JBool b) = Inr (if b then 1 else 0)"
| "float_of_json (JStr s) =
     (case signed_decimal s of
        None \<Rightarrow> Inl (ValueError ''could not convert string to float'')
      | Some r \<Rightarrow> Inr r)"
| "float_of_json _ = Inl TypeError"

text \<open>
  \<open>percent_s\<close> is the operator \<open>%\<close> with one string argument on templates made of
  plain characters, \<open>%s\<close> and \<open>%%\<close>: the argument replaces the one \<open>%s\<close>; a second
  \<open>%s\<close> finds no argument left and no \<open>%s\<close> at all leaves the argument unused, both
  a \<open>TypeError\<close>. Any other conversion is rejected with \<open>ValueError\<close>, so the examples
  use none. The flag says whether the argument is already used.
\<close>

fun percent_from :: "bool \<Rightarrow> string \<Rightarrow> string \<Rightarrow> pyerr + string" where
  "percent_from used [] arg = (if used then Inr [] else Inl TypeError)"
| "percent_from used [c] arg =
     (if c = CHR ''%'' then Inl (ValueError ''incomplete format'')
      else bind (percent_from used [] arg) (\<lambda>r. Inr (c # r)))"
| "percent_from used (c # d # t) arg =
     (if c \<noteq> CHR ''%'' then bind (percent_from used (d # t) arg) (\<lambda>r. Inr (c # r))
      else if d = CHR ''%'' then bind (percent_from used t arg) (\<lambda>r. Inr (CHR ''%'' # r))
      else if d = CHR ''s'' then
        (if used then Inl TypeError
         else bind (percent_from True t arg) (\<lambda>r. Inr (arg @ r)))
      else Inl (ValueError ''unsupported format character''))"

definition percent_s :: "string \<Rightarrow> string \<Rightarrow> pyerr + string" where
  "percent_s template arg = percent_from False template arg"

section \<open>Properties of the response interpreter\<close>

subsection \<open>Auxiliary facts\<close>

lemma bind_Inr_iff: "bind m f = Inr y \<longleftrightarrow> (\<exists>x. m = Inr x \<and> f x = Inr y)"
  by (cases m) auto

lemma parse_result_raw: "parse_result pf r = Inr l \<Longrightarrow> raw l = r"
  by (auto simp: parse_result_def bind_Inr_iff split: if_splits)

text \<open>
  The loop returns exactly when every entry decodes, and then it has appended the
  decoded entries to the accumulator, one for one and in order.
\<close>

lemma parse_loop_acc:
  "parse_loop pf rs acc = Inr out \<longleftrightarrow>
     (\<exists>locs. out = acc @ locs \<and> list_all2 (\<lambda>r l. parse_result pf r = Inr l) rs locs)"
proof (induction rs arbitrary: acc)
  case Nil
  show ?case by auto
next
  case (Cons r rs)
  show ?case
  proof (cases "parse_result pf r")
    case (Inl e)
    then show ?thesis by (auto simp: list_all2_Cons1)
  next
    case (Inr l)
    then show ?thesis by (auto simp: Cons.IH list_all2_Cons1)
  qed
qed

text \<open>\<open>is_substring\<close> is the substring relation.\<close>

lemma is_substring_iff: "is_substring n s \<longleftrightarrow> (\<exists>p q. s = p @ n @ q)"
proof (induction s)
  case Nil
  show ?case by auto
next
  case (Cons c cs)
  have "(\<exists>p q. c # cs = p @ n @ q) \<longleftrightarrow> prefix n (c # cs) \<or> (\<exists>p q. cs = p @ n @ q)"
  proof
    assume "\<exists>p q. c # cs = p @ n @ q"
    then obtain p q where pq: "c # cs = p @ n @ q" by blast
    show "prefix n (c # cs) \<or> (\<exists>p q. cs = p @ n @ q)"
    proof (cases p)
      case Nil
      with pq show ?thesis by (auto simp: prefix_def)
    next
      case (Cons a p')
      with pq show ?thesis by auto
    qed
  next
    assume "prefix n (c # cs) \<or> (\<exists>p q. cs = p @ n @ q)"
    then show "\<exists>p q. c # cs = p @ n @ q"
    proof
      assume "prefix n (c # cs)"
      then obtain q where "c # cs = n @ q" by (auto simp: prefix_def)
      then have "c # cs = [] @ n @ q" by simp
      then show ?thesis by blast
    next
      assume "\<exists>p q. cs = p @ n @ q"
      then obtain p q where "cs = p @ n @ q" by blast
      then have "c # cs = (c # p) @ n @ q" by simp
      then show ?thesis by blast
    qed
  qed
  with Cons.IH show ?case by simp
qed

text \<open>The failure branch of \<open>_check_for_api_errors\<close>.\<close>

lemma check_failure:
  assumes "py_get gr ''STATUS'' (JObj []) = Inr sr"
    and "py_get sr ''status'' (JStr []) = Inr status"
    and "py_in ''NO_RESULTS'' status = Inr False"
    and "status \<noteq> JStr ''SUCCESS''"
    and "py_get sr ''access'' JNull = Inr access"
    and "py_hashable access"
  shows "check_for_api_errors gr =
           Inl (if access = JStr ''API_KEY_INVALID'' then GeocoderAuthenticationFailure access
                else if access = JStr ''OVER_QUERY_LIMIT'' then GeocoderQuotaExceeded access
                else GeocoderServiceError access)"
  using assms by (simp add: check_for_api_errors_def exception_cls_def)

lemma parse_json_check_raises:
  assumes "py_getitem body ''geocoding_results'' = Inr gr"
    and "check_for_api_errors gr = Inl e"
  shows "parse_json pf body exactly_one = Inl e"
proof -
  from assms(1) have "body \<noteq> JNull" by auto
  with assms show ?thesis by (simp add: parse_json_def)
qed

subsection \<open>C1: coordinates of a decoded entry\<close>

text \<open>
  C1 as the spec states it: when \<open>COORDINATES.latitude\<close> or \<open>COORDINATES.longitude\<close>
  is missing or falsy, both components of the coordinate pair of the location are null.
  The code does not do that: it converts both when both are truthy and otherwise passes
  on the two values as it read them. An entry with latitude \<open>"51.5"\<close> and no longitude
  gets the pair \<open>("51.5", None)\<close>, whose first component is not null.
\<close>

theorem parse_result_partial_counterexample:
  "parse_result float_of_json (JObj [(''COORDINATES'', JObj [(''latitude'', JStr ''51.5'')])]) =
     Inr \<lparr>address = JNull, point = (Unconverted (JStr ''51.5''), Unconverted JNull),
          raw = JObj [(''COORDINATES'', JObj [(''latitude'', JStr ''51.5'')])]\<rparr>
   \<and> (Unconverted (JStr ''51.5''), Unconverted JNull) \<noteq> (Unconverted JNull, Unconverted JNull)"
  by (simp add: parse_result_def)

text \<open>
  C1, amended: for every result entry whose \<open>COORDINATES\<close> and \<open>ADDRESS\<close> are
  mappings (or absent), if either the latitude or the longitude is missing or falsy then
  neither is converted: \<open>parse_code\<close>'s loop body returns a location whose pair holds
  the two values exactly as read (null for a missing field). Only when both are truthy
  are they converted, latitude first, and the location has the two converted numbers
  (or the exception of the conversion is raised).
\<close>

theorem parse_result_coordinates:
  assumes "py_get result ''COORDINATES'' (JObj []) = Inr coordinates"
    and "py_get coordinates ''latitude'' JNull = Inr latitude"
    and "py_get coordinates ''longitude'' JNull = Inr longitude"
    and "py_get result ''ADDRESS'' (JObj []) = Inr addr"
    and "py_get addr ''address_returned'' JNull = Inr returned"
    and "py_get addr ''address'' JNull = Inr fallback"
    and "name = (if returned = JNull then fallback else returned)"
  shows "parse_result pf result =
           (if truthy latitude \<and> truthy longitude
            then bind (pf latitude) (\<lambda>la. bind (pf longitude) (\<lambda>lo.
                   Inr \<lparr>address = name, point = (Float la, Float lo), raw = result\<rparr>))
            else Inr \<lparr>address = name,
                      point = (Unconverted latitude, Unconverted longitude), raw = result\<rparr>)"
  using assms by (simp add: parse_result_def)

theorem parse_result_coordinates_witness:
  "parse_result float_of_json
     (JObj [(''COORDINATES'', JObj [(''latitude'', JStr ''''), (''longitude'', JStr ''-0.1586'')]),
            (''ADDRESS'', JObj [(''address'', JStr ''Baker St'')])]) =
     Inr \<lparr>address = JStr ''Baker St'',
          point = (Unconverted (JStr ''''), Unconverted (JStr ''-0.1586'')),
          raw = JObj [(''COORDINATES'', JObj [(''latitude'', JStr ''''), (''longitude'', JStr ''-0.1586'')]),
                      (''ADDRESS'', JObj [(''address'', JStr ''Baker St'')])]\<rparr>"
  using parse_result_coordinates
    [of "JObj [(''COORDINATES'', JObj [(''latitude'', JStr ''''), (''longitude'', JStr ''-0.1586'')]),
               (''ADDRESS'', JObj [(''address'', JStr ''Baker St'')])]"
        "JObj [(''latitude'', JStr ''''), (''longitude'', JStr ''-0.1586'')]"
        "JStr ''''" "JStr ''-0.1586''" "JObj [(''address'', JStr ''Baker St'')]"
        JNull "JStr ''Baker St''" "JStr ''Baker St''" float_of_json]
  by simp

subsection \<open>C2: the exactly-one selection\<close>

text \<open>
  C2 as the spec states it: for every response classified as success the decoded
  sequence that reaches the exactly-one selection is non-empty, the empty case being
  intercepted by the short-circuit. The short-circuit looks at the status text only: a
  body with status \<open>SUCCESS\<close> and an empty \<open>RESULTS\<close> list reaches \<open>places[0]\<close>
  with the empty list, and the selection raises \<open>IndexError\<close>.
\<close>

theorem parse_json_empty_success_counterexample:
  "parse_json float_of_json
     (JObj [(''geocoding_results'',
             JObj [(''STATUS'', JObj [(''status'', JStr ''SUCCESS'')]), (''RESULTS'', JList [])])])
     True = Inl IndexError"
  by (simp add: parse_json_def check_for_api_errors_def parse_code_def)

text \<open>
  C2, amended: for every response with status \<open>SUCCESS\<close> whose \<open>RESULTS\<close> is a
  non-empty list, the sequence that \<open>parse_code\<close> returns is non-empty, its first
  element is the decoding of the first entry, and \<open>_parse_json\<close> with \<open>exactly_one\<close>
  true returns that element.
\<close>

theorem parse_json_first_place:
  assumes "py_getitem body ''geocoding_results'' = Inr gr"
    and "py_get gr ''STATUS'' (JObj []) = Inr sr"
    and "py_get sr ''status'' (JStr []) = Inr (JStr ''SUCCESS'')"
    and "py_get gr ''RESULTS'' JNull = Inr (JList (r # rest))"
    and "parse_code pf gr = Inr places"
  shows "\<exists>p ps. places = p # ps \<and> parse_result pf r = Inr p \<and>
           parse_json pf body True = Inr (RLocation p)"
proof -
  from assms(4,5) have "list_all2 (\<lambda>r l. parse_result pf r = Inr l) (r # rest) places"
    by (simp add: parse_code_def parse_loop_acc del: parse_loop.simps)
  then obtain p ps where places: "places = p # ps" and p: "parse_result pf r = Inr p"
    by (auto simp: list_all2_Cons1)
  from assms(1) have "body \<noteq> JNull" by auto
  with assms places have "parse_json pf body True = Inr (RLocation p)"
    by (simp add: parse_json_def check_for_api_errors_def)
  with places p show ?thesis by blast
qed

theorem parse_json_first_place_witness:
  "parse_json float_of_json
       (JObj [(''geocoding_results'',
          JObj [(''STATUS'', JObj [(''status'', JStr ''SUCCESS'')]),
                (''RESULTS'', JList [JObj [(''COORDINATES'', JObj [(''latitude'', JStr ''51.5238''), (''longitude'', JStr ''-0.1586'')]),
                                           (''ADDRESS'', JObj [(''address_returned'', JStr ''221B Baker St'')])]])])])
       True =
     Inr (RLocation \<lparr>address = JStr ''221B Baker St'', point = (Float (51.5238), Float (- 0.1586)),
              raw = JObj [(''COORDINATES'', JObj [(''latitude'', JStr ''51.5238''), (''longitude'', JStr ''-0.1586'')]),
                          (''ADDRESS'', JObj [(''address_returned'', JStr ''221B Baker St'')])]\<rparr>)"
proof -
  let ?entry = "JObj [(''COORDINATES'', JObj [(''latitude'', JStr ''51.5238''), (''longitude'', JStr ''-0.1586'')]),
                      (''ADDRESS'', JObj [(''address_returned'', JStr ''221B Baker St'')])]"
  let ?st = "JObj [(''status'', JStr ''SUCCESS'')]"
  let ?gr = "JObj [(''STATUS'', ?st), (''RESULTS'', JList [?entry])]"
  let ?loc = "\<lparr>address = JStr ''221B Baker St'', point = (Float (51.5238), Float (- 0.1586)), raw = ?entry\<rparr>"
  have pr: "parse_result float_of_json ?entry = Inr ?loc"
    by (simp add: parse_result_def signed_decimal_def unsigned_decimal_def digit_of_def)
  have pc: "parse_code float_of_json ?gr = Inr [?loc]"
    unfolding parse_code_def by (simp add: pr)
  show ?thesis
    using parse_json_first_place
      [of "JObj [(''geocoding_results'', ?gr)]" ?gr ?st ?entry "[]" float_of_json "[?loc]"] pc
    by simp
qed

subsection \<open>C3: the error kind of a failure\<close>

text \<open>
  C3: for every response whose \<open>STATUS.status\<close> is a string that neither equals
  \<open>SUCCESS\<close> nor contains \<open>NO_RESULTS\<close>, the interpreter raises an error whose kind is
  decided by exact match on \<open>STATUS.access\<close>: \<open>API_KEY_INVALID\<close> raises
  \<open>GeocoderAuthenticationFailure\<close>, \<open>OVER_QUERY_LIMIT\<close> raises
  \<open>GeocoderQuotaExceeded\<close>, and any other access token (a string, a number, a boolean
  or null, null also when the field is absent) raises \<open>GeocoderServiceError\<close>; each
  carries the access value.
\<close>

theorem api_error_kind:
  assumes "py_getitem body ''geocoding_results'' = Inr gr"
    and "py_get gr ''STATUS'' (JObj []) = Inr sr"
    and "py_get sr ''status'' (JStr []) = Inr (JStr s)"
    and "s \<noteq> ''SUCCESS''"
    and "\<not> is_substring ''NO_RESULTS'' s"
    and "py_get sr ''access'' JNull = Inr access"
    and "py_hashable access"
  shows "parse_json pf body exactly_one =
           Inl (if access = JStr ''API_KEY_INVALID'' then GeocoderAuthenticationFailure access
                else if access = JStr ''OVER_QUERY_LIMIT'' then GeocoderQuotaExceeded access
                else GeocoderServiceError access)"
proof -
  have "py_in ''NO_RESULTS'' (JStr s) = Inr False" "JStr s \<noteq> JStr ''SUCCESS''"
    using assms(4,5) by simp_all
  from check_failure [OF assms(2,3) this assms(6,7)] parse_json_check_raises [OF assms(1)]
  show ?thesis by simp
qed

theorem api_error_kind_witness:
  "parse_json float_of_json
     (JObj [(''geocoding_results'',
        JObj [(''STATUS'', JObj [(''status'', JStr ''FAILURE''), (''access'', JStr ''UNKNOWN_ERROR'')])])])
     True = Inl (GeocoderServiceError (JStr ''UNKNOWN_ERROR''))"
  using api_error_kind
    [of "JObj [(''geocoding_results'',
          JObj [(''STATUS'', JObj [(''status'', JStr ''FAILURE''), (''access'', JStr ''UNKNOWN_ERROR'')])])]"
        "JObj [(''STATUS'', JObj [(''status'', JStr ''FAILURE''), (''access'', JStr ''UNKNOWN_ERROR'')])]"
        "JObj [(''status'', JStr ''FAILURE''), (''access'', JStr ''UNKNOWN_ERROR'')]"
        "''FAILURE''" "JStr ''UNKNOWN_ERROR''" float_of_json True]
  by simp

subsection \<open>C4: a status that contains NO\_RESULTS\<close>

text \<open>
  C4: for every response body whose \<open>STATUS.status\<close> contains the substring
  \<open>NO_RESULTS\<close>, \<open>_parse_json\<close> returns \<open>None\<close> and raises nothing, whatever
  \<open>exactly_one\<close> and \<open>STATUS.access\<close> are.
\<close>

theorem no_results_returns_none:
  assumes "py_getitem body ''geocoding_results'' = Inr gr"
    and "py_get gr ''STATUS'' (JObj []) = Inr sr"
    and "py_get sr ''status'' (JStr []) = Inr (JStr s)"
    and "is_substring ''NO_RESULTS'' s"
  shows "parse_json pf body exactly_one = Inr RNone"
proof -
  from assms(1) have "body \<noteq> JNull" by auto
  with assms show ?thesis by (simp add: parse_json_def check_for_api_errors_def)
qed

theorem no_results_returns_none_witness:
  "parse_json float_of_json
     (JObj [(''geocoding_results'',
        JObj [(''STATUS'', JObj [(''status'', JStr ''FAILED, NO_RESULTS''),
                                 (''access'', JStr ''API_KEY_INVALID'')])])])
     True = Inr RNone"
  using no_results_returns_none
    [of "JObj [(''geocoding_results'',
          JObj [(''STATUS'', JObj [(''status'', JStr ''FAILED, NO_RESULTS''),
                                   (''access'', JStr ''API_KEY_INVALID'')])])]"
        "JObj [(''STATUS'', JObj [(''status'', JStr ''FAILED, NO_RESULTS''),
                                  (''access'', JStr ''API_KEY_INVALID'')])]"
        "JObj [(''status'', JStr ''FAILED, NO_RESULTS''), (''access'', JStr ''API_KEY_INVALID'')]"
        "''FAILED, NO_RESULTS''" float_of_json True]
  by simp

subsection \<open>C8: one location per entry, in order\<close>

text \<open>
  C8: for every \<open>RESULTS\<close> list, \<open>parse_code\<close> returns a sequence exactly when every
  entry decodes, and the sequence it returns has one location per entry, in the order of
  the entries: the i-th location is the decoding of the i-th entry and keeps that entry as
  its raw value.
\<close>

theorem parse_code_order:
  assumes "py_get results ''RESULTS'' JNull = Inr (JList rs)"
  shows "parse_code pf results = Inr places \<longleftrightarrow>
           length places = length rs \<and>
           (\<forall>i<length rs. parse_result pf (rs ! i) = Inr (places ! i) \<and> raw (places ! i) = rs ! i)"
  using assms
  by (auto simp: parse_code_def parse_loop_acc list_all2_conv_all_nth parse_result_raw)

theorem parse_code_order_witness:
  "parse_code float_of_json
     (JObj [(''RESULTS'', JList [JObj [(''ADDRESS'', JObj [(''address'', JStr ''A'')])],
                                 JObj [(''ADDRESS'', JObj [(''address'', JStr ''B'')])]])]) =
   Inr [\<lparr>address = JStr ''A'', point = (Unconverted JNull, Unconverted JNull),
         raw = JObj [(''ADDRESS'', JObj [(''address'', JStr ''A'')])]\<rparr>,
        \<lparr>address = JStr ''B'', point = (Unconverted JNull, Unconverted JNull),
         raw = JObj [(''ADDRESS'', JObj [(''address'', JStr ''B'')])]\<rparr>]"
proof -
  let ?a = "JObj [(''ADDRESS'', JObj [(''address'', JStr ''A'')])]"
  let ?b = "JObj [(''ADDRESS'', JObj [(''address'', JStr ''B'')])]"
  let ?la = "\<lparr>address = JStr ''A'', point = (Unconverted JNull, Unconverted JNull), raw = ?a\<rparr>"
  let ?lb = "\<lparr>address = JStr ''B'', point = (Unconverted JNull, Unconverted JNull), raw = ?b\<rparr>"
  have a: "parse_result float_of_json ?a = Inr ?la" by (simp add: parse_result_def)
  have b: "parse_result float_of_json ?b = Inr ?lb" by (simp add: parse_result_def)
  have "\<forall>i<2. parse_result float_of_json ([?a, ?b] ! i) = Inr ([?la, ?lb] ! i) \<and>
              raw ([?la, ?lb] ! i) = [?a, ?b] ! i"
    using a b by (simp add: less_Suc_eq numeral_2_eq_2)
  then show ?thesis
    using parse_code_order [of "JObj [(''RESULTS'', JList [?a, ?b])]" "[?a, ?b]"
        float_of_json "[?la, ?lb]"]
    by simp
qed

subsection \<open>C9: a body without the envelope key\<close>

text \<open>
  C9: for every decoded body that is a mapping without the key \<open>geocoding_results\<close>,
  \<open>_parse_json\<close> raises \<open>KeyError\<close> for that key: the envelope is indexed before
  any status is looked at.
\<close>

theorem missing_envelope_key_error:
  assumes "map_of kvs ''geocoding_results'' = None"
  shows "parse_json pf (JObj kvs) exactly_one = Inl (KeyError ''geocoding_results'')"
  using assms by (simp add: parse_json_def)

theorem missing_envelope_key_error_witness:
  "parse_json float_of_json (JObj [(''error'', JStr ''x'')]) True = Inl (KeyError ''geocoding_results'')"
  using missing_envelope_key_error [of "[(''error'', JStr ''x'')]" float_of_json True]
  by simp

subsection \<open>C10: a response without a status\<close>

text \<open>
  C10 as the spec states it: when the envelope has no \<open>STATUS\<close> or \<open>STATUS\<close> has no
  \<open>status\<close> field, a \<open>GeocoderServiceError\<close> carrying null is raised. A \<open>STATUS\<close>
  without \<open>status\<close> may still have an \<open>access\<close> field, and the kind of the error
  follows it: with access \<open>API_KEY_INVALID\<close> the error is
  \<open>GeocoderAuthenticationFailure\<close> carrying that token.
\<close>

theorem missing_status_access_counterexample:
  "parse_json float_of_json
     (JObj [(''geocoding_results'', JObj [(''STATUS'', JObj [(''access'', JStr ''API_KEY_INVALID'')])])])
     True = Inl (GeocoderAuthenticationFailure (JStr ''API_KEY_INVALID''))
   \<and> GeocoderAuthenticationFailure (JStr ''API_KEY_INVALID'') \<noteq> GeocoderServiceError JNull"
  by (simp add: parse_json_def check_for_api_errors_def exception_cls_def)

text \<open>
  C10, amended: for every response body whose envelope has no \<open>STATUS\<close>, or whose
  \<open>STATUS\<close> is a mapping without a \<open>status\<close> field, the status is taken as the empty
  string and classified as failure: an error is raised, never a success and never a
  parse error, and its kind follows \<open>STATUS.access\<close> as for every failure. It is a
  \<open>GeocoderServiceError\<close> carrying null when \<open>STATUS\<close> or its \<open>access\<close> field is
  absent.
\<close>

theorem missing_status_is_failure:
  assumes "py_getitem body ''geocoding_results'' = Inr (JObj gr)"
    and "py_get (JObj gr) ''STATUS'' (JObj []) = Inr (JObj st)"
    and "map_of st ''status'' = None"
    and "py_get (JObj st) ''access'' JNull = Inr access"
    and "py_hashable access"
  shows "parse_json pf body exactly_one =
           Inl (if access = JStr ''API_KEY_INVALID'' then GeocoderAuthenticationFailure access
                else if access = JStr ''OVER_QUERY_LIMIT'' then GeocoderQuotaExceeded access
                else GeocoderServiceError access)
         \<and> (map_of gr ''STATUS'' = None \<or> map_of st ''access'' = None \<longrightarrow>
              parse_json pf body exactly_one = Inl (GeocoderServiceError JNull))"
proof -
  have status: "py_get (JObj st) ''status'' (JStr []) = Inr (JStr [])"
    using assms(3) by simp
  have "py_in ''NO_RESULTS'' (JStr []) = Inr False" "JStr [] \<noteq> JStr ''SUCCESS''"
    by simp_all
  from check_failure [OF assms(2) status this assms(4,5)] parse_json_check_raises [OF assms(1)]
  have raised: "parse_json pf body exactly_one =
           Inl (if access = JStr ''API_KEY_INVALID'' then GeocoderAuthenticationFailure access
                else if access = JStr ''OVER_QUERY_LIMIT'' then GeocoderQuotaExceeded access
                else GeocoderServiceError access)"
    by simp
  have "access = JNull" if "map_of gr ''STATUS'' = None \<or> map_of st ''access'' = None"
    using that assms(2,4) by auto
  with raised show ?thesis by simp
qed

theorem missing_status_is_failure_witness:
  "parse_json float_of_json (JObj [(''geocoding_results'', JObj [(''RESULTS'', JList [])])]) False
     = Inl (GeocoderServiceError JNull)"
  using missing_status_is_failure
    [of "JObj [(''geocoding_results'', JObj [(''RESULTS'', JList [])])]"
        "[(''RESULTS'', JList [])]" "[]" JNull float_of_json False]
  by simp

section \<open>Properties of the request builder\<close>

subsection \<open>Quoting and its inverse\<close>

lemma hexval_hexdigit: "n < 16 \<Longrightarrow> hexval (hexdigit n) = Some n"
  by (auto simp: hexval_def hexdigit_def Let_def)

lemma of_char_hexdigit:
  "n < 16 \<Longrightarrow> (of_char (hexdigit n) :: nat) = (if n < 10 then 48 + n else 55 + n)"
  by (simp add: hexdigit_def)

lemma hexdigit_not_sep:
  assumes "n < 16"
  shows "hexdigit n \<noteq> CHR ''&''" and "hexdigit n \<noteq> CHR ''=''"
proof -
  show "hexdigit n \<noteq> CHR ''&''"
  proof
    assume "hexdigit n = CHR ''&''"
    then have "(of_char (hexdigit n) :: nat) = of_char CHR ''&''" by simp
    with assms show False by (simp add: of_char_hexdigit split: if_splits)
  qed
  show "hexdigit n \<noteq> CHR ''=''"
  proof
    assume "hexdigit n = CHR ''=''"
    then have "(of_char (hexdigit n) :: nat) = of_char CHR ''=''" by simp
    with assms show False by (simp add: of_char_hexdigit split: if_splits)
  qed
qed

lemma char_of_nibbles: "char_of (16 * ((of_char c :: nat) div 16) + (of_char c :: nat) mod 16) = c"
  by simp

lemma of_char_div_16: "(of_char c :: nat) div 16 < 16"
proof -
  have "(of_char c :: nat) < 256" by (rule nat_of_char_less_256)
  then show ?thesis by (simp add: less_mult_imp_div_less)
qed

lemma unquote_plus_plain:
  "c \<noteq> CHR ''+'' \<Longrightarrow> c \<noteq> CHR ''%'' \<Longrightarrow> unquote_plus (c # rest) = c # unquote_plus rest"
  by (cases rest rule: unquote_plus.cases) auto

lemma unquote_plus_plus: "unquote_plus (CHR ''+'' # rest) = CHR '' '' # unquote_plus rest"
  by (cases rest rule: unquote_plus.cases) auto

lemma always_safe_plain:
  "always_safe c \<Longrightarrow> c \<noteq> CHR ''+'' \<and> c \<noteq> CHR ''%'' \<and> c \<noteq> CHR ''&'' \<and> c \<noteq> CHR ''=''"
  by (auto simp: always_safe_def)

lemma unquote_plus_quote_char: "unquote_plus (quote_char c @ rest) = c # unquote_plus rest"
proof (cases "always_safe c")
  case True
  then show ?thesis
    using always_safe_plain [of c] by (simp add: quote_char_def unquote_plus_plain)
next
  case False
  show ?thesis
  proof (cases "c = CHR '' ''")
    case True
    with False show ?thesis by (simp add: quote_char_def unquote_plus_plus)
  next
    case nsp: False
    have hi: "hexval (hexdigit ((of_char c :: nat) div 16)) = Some ((of_char c :: nat) div 16)"
      by (rule hexval_hexdigit) (rule of_char_div_16)
    have lo: "hexval (hexdigit ((of_char c :: nat) mod 16)) = Some ((of_char c :: nat) mod 16)"
      by (rule hexval_hexdigit) simp
    from False nsp show ?thesis
      by (simp add: quote_char_def hi lo)
  qed
qed

lemma unquote_plus_quote_plus: "unquote_plus (quote_plus s) = s"
  by (induction s) (simp_all add: quote_plus_def unquote_plus_quote_char)

lemma quote_char_no_sep: "CHR ''&'' \<notin> set (quote_char c)" "CHR ''='' \<notin> set (quote_char c)"
  using always_safe_plain [of c] hexdigit_not_sep [of "(of_char c :: nat) div 16"]
    hexdigit_not_sep [of "(of_char c :: nat) mod 16"] of_char_div_16 [of c]
  by (auto simp: quote_char_def)

lemma quote_plus_no_sep: "CHR ''&'' \<notin> set (quote_plus s)" "CHR ''='' \<notin> set (quote_plus s)"
  by (simp_all add: quote_plus_def quote_char_no_sep)

lemma split_on_none: "sep \<notin> set a \<Longrightarrow> split_on sep a = [a]"
  by (induction a) auto

lemma split_on_append: "sep \<notin> set a \<Longrightarrow> split_on sep (a @ sep # b) = a # split_on sep b"
  by (induction a) auto

lemma takeWhile_until: "x \<notin> set a \<Longrightarrow> takeWhile (\<lambda>c. c \<noteq> x) (a @ x # b) = a"
  by (induction a) auto

lemma dropWhile_until: "x \<notin> set a \<Longrightarrow> dropWhile (\<lambda>c. c \<noteq> x) (a @ x # b) = x # b"
  by (induction a) auto

lemma parse_pair_field: "parse_pair (quote_plus k @ CHR ''='' # quote_plus v) = (k, v)"
  by (simp add: parse_pair_def takeWhile_until dropWhile_until quote_plus_no_sep
      unquote_plus_quote_plus)

lemma split_join_fields:
  assumes "\<forall>f \<in> set fs. sep \<notin> set f" and "fs \<noteq> []"
  shows "split_on sep (join [sep] fs) = fs"
  using assms
proof (induction fs)
  case Nil
  then show ?case by simp
next
  case (Cons x xs)
  show ?case
  proof (cases xs)
    case Nil
    with Cons.prems show ?thesis by (simp add: split_on_none)
  next
    case (Cons y ys)
    with Cons.prems Cons.IH show ?thesis by (simp add: split_on_append)
  qed
qed

text \<open>Decoding undoes \<open>urlencode\<close>, for every list of parameters.\<close>

lemma parse_qsl_urlencode: "parse_qsl (urlencode params) = params"
proof (cases "params = []")
  case True
  then show ?thesis by (simp add: parse_qsl_def urlencode_def)
next
  case False
  let ?fs = "map (\<lambda>(k, v). quote_plus k @ ''='' @ quote_plus v) params"
  have "\<forall>f \<in> set ?fs. CHR ''&'' \<notin> set f" by (auto simp: quote_plus_no_sep)
  moreover from False have "?fs \<noteq> []" by simp
  ultimately have split: "split_on CHR ''&'' (join ''&'' ?fs) = ?fs"
    by (rule split_join_fields)
  have nonempty: "filter (\<lambda>field. field \<noteq> []) ?fs = ?fs"
    by (auto simp: filter_id_conv)
  have "map parse_pair ?fs = params"
    by (induction params) (auto simp: parse_pair_field)
  with split nonempty show ?thesis
    by (simp add: parse_qsl_def urlencode_def)
qed

subsection \<open>Stripping\<close>

text \<open>
  \<open>py_strip\<close> strips: it takes a run of whitespace characters from each end and
  leaves a text that has none at either end.
\<close>

lemma ws_only_single: "is_space w \<Longrightarrow> ws_only w"
  using ws_more [of w "[]"] ws_empty by simp

lemma ws_only_append: "ws_only l \<Longrightarrow> ws_only r \<Longrightarrow> ws_only (l @ r)"
  by (induction rule: ws_only.induct) (auto intro: ws_only.intros)

lemma lstrip_decomp: "\<exists>l. ws_only l \<and> s = l @ lstrip s"
proof (induction s rule: lstrip.induct)
  case 1
  show ?case using ws_empty by simp
next
  case (2 a)
  show ?case
  proof (cases "space1 a")
    case True
    then have "ws_only [a]" by (simp add: ws_only_single)
    with True show ?thesis by auto
  next
    case False
    then show ?thesis using ws_empty by auto
  qed
next
  case (3 a b)
  consider "space1 a" | "\<not> space1 a" "space2 a b" | "\<not> space1 a" "\<not> space2 a b" by blast
  then show ?case
  proof cases
    case 1
    with 3 obtain l where l: "ws_only l" "[b] = l @ lstrip [b]" by blast
    from 1 have "ws_only ([a] @ l)" by (intro ws_more l) simp
    moreover from 1 l(2) have "[a, b] = ([a] @ l) @ lstrip [a, b]" by simp
    ultimately show ?thesis by blast
  next
    case 2
    then have "ws_only [a, b]" by (simp add: ws_only_single)
    with 2 show ?thesis by auto
  next
    case 3
    then show ?thesis using ws_empty by auto
  qed
next
  case (4 a b c t)
  consider "space1 a" | "\<not> space1 a" "space2 a b" | "\<not> space1 a" "\<not> space2 a b" "space3 a b c"
    | "\<not> space1 a" "\<not> space2 a b" "\<not> space3 a b c" by blast
  then show ?case
  proof cases
    case 1
    with 4 obtain l where l: "ws_only l" "b # c # t = l @ lstrip (b # c # t)" by blast
    from 1 have "ws_only ([a] @ l)" by (intro ws_more l) simp
    moreover from 1 l(2) have "a # b # c # t = ([a] @ l) @ lstrip (a # b # c # t)" by simp
    ultimately show ?thesis by blast
  next
    case 2
    with 4 obtain l where l: "ws_only l" "c # t = l @ lstrip (c # t)" by blast
    from 2 have "ws_only ([a, b] @ l)" by (intro ws_more l) simp
    moreover from 2 l(2) have "a # b # c # t = ([a, b] @ l) @ lstrip (a # b # c # t)" by simp
    ultimately show ?thesis by blast
  next
    case 3
    with 4 obtain l where l: "ws_only l" "t = l @ lstrip t" by blast
    from 3 have "ws_only ([a, b, c] @ l)" by (intro ws_more l) simp
    moreover from 3 l(2) have "a # b # c # t = ([a, b, c] @ l) @ lstrip (a # b # c # t)" by simp
    ultimately show ?thesis by blast
  next
    case 4
    then show ?thesis using ws_empty by auto
  qed
qed

lemma lstrip_no_leading: "is_space w \<Longrightarrow> \<not> prefix w (lstrip s)"
proof (induction s rule: lstrip.induct)
  case 1
  then show ?case by (cases w rule: is_space.cases) auto
next
  case (2 a)
  then show ?case by (cases w rule: is_space.cases) auto
next
  case (3 a b)
  then show ?case by (cases w rule: is_space.cases) auto
next
  case (4 a b c t)
  then show ?case by (cases w rule: is_space.cases) auto
qed

lemma rstrip_rev_decomp: "\<exists>r. ws_only r \<and> t = rev r @ rstrip_rev t"
proof (induction t rule: rstrip_rev.induct)
  case 1
  show ?case using ws_empty by fastforce
next
  case (2 c)
  show ?case
  proof (cases "space1 c")
    case True
    then have "ws_only [c]" by (simp add: ws_only_single)
    moreover from True have "[c] = rev [c] @ rstrip_rev [c]" by simp
    ultimately show ?thesis by blast
  next
    case False
    then have "[c] = rev [] @ rstrip_rev [c]" by simp
    with ws_empty show ?thesis by blast
  qed
next
  case (3 c b)
  consider "space1 c" | "\<not> space1 c" "space2 b c" | "\<not> space1 c" "\<not> space2 b c" by blast
  then show ?case
  proof cases
    case 1
    with 3 obtain r where r: "ws_only r" "[b] = rev r @ rstrip_rev [b]" by blast
    from 1 have "ws_only (r @ [c])" by (intro ws_only_append r ws_only_single) simp
    moreover from 1 r(2) have "[c, b] = rev (r @ [c]) @ rstrip_rev [c, b]" by simp
    ultimately show ?thesis by blast
  next
    case 2
    then have "ws_only [b, c]" by (simp add: ws_only_single)
    moreover from 2 have "[c, b] = rev [b, c] @ rstrip_rev [c, b]" by simp
    ultimately show ?thesis by blast
  next
    case 3
    then have "[c, b] = rev [] @ rstrip_rev [c, b]" by simp
    with ws_empty show ?thesis by blast
  qed
next
  case (4 c b a t)
  consider "space1 c" | "\<not> space1 c" "space2 b c" | "\<not> space1 c" "\<not> space2 b c" "space3 a b c"
    | "\<not> space1 c" "\<not> space2 b c" "\<not> space3 a b c" by blast
  then show ?case
  proof cases
    case 1
    with 4 obtain r where r: "ws_only r" "b # a # t = rev r @ rstrip_rev (b # a # t)" by blast
    from 1 have "ws_only (r @ [c])" by (intro ws_only_append r ws_only_single) simp
    moreover from 1 r(2) have "c # b # a # t = rev (r @ [c]) @ rstrip_rev (c # b # a # t)" by simp
    ultimately show ?thesis by blast
  next
    case 2
    with 4 obtain r where r: "ws_only r" "a # t = rev r @ rstrip_rev (a # t)" by blast
    from 2 have "ws_only (r @ [b, c])" by (intro ws_only_append r ws_only_single) simp
    moreover from 2 r(2) have "c # b # a # t = rev (r @ [b, c]) @ rstrip_rev (c # b # a # t)" by simp
    ultimately show ?thesis by blast
  next
    case 3
    with 4 obtain r where r: "ws_only r" "t = rev r @ rstrip_rev t" by blast
    from 3 have "ws_only (r @ [a, b, c])" by (intro ws_only_append r ws_only_single) simp
    moreover from 3 r(2) have "c # b # a # t = rev (r @ [a, b, c]) @ rstrip_rev (c # b # a # t)" by simp
    ultimately show ?thesis by blast
  next
    case 4
    then have "c # b # a # t = rev [] @ rstrip_rev (c # b # a # t)" by simp
    with ws_empty show ?thesis by blast
  qed
qed

lemma rstrip_rev_no_leading: "is_space w \<Longrightarrow> \<not> prefix (rev w) (rstrip_rev t)"
proof (induction t rule: rstrip_rev.induct)
  case 1
  then show ?case by (cases w rule: is_space.cases) auto
next
  case (2 c)
  then show ?case by (cases w rule: is_space.cases) auto
next
  case (3 c b)
  then show ?case by (cases w rule: is_space.cases) auto
next
  case (4 c b a t)
  then show ?case by (cases w rule: is_space.cases) auto
qed

lemma rstrip_decomp: "\<exists>r. ws_only r \<and> s = rstrip s @ r"
proof -
  obtain r where r: "ws_only r" "rev s = rev r @ rstrip_rev (rev s)"
    using rstrip_rev_decomp by blast
  from r(2) have "rev (rev s) = rev (rev r @ rstrip_rev (rev s))" by simp
  then have "s = rstrip s @ r" by (simp add: rstrip_def)
  with r(1) show ?thesis by blast
qed

lemma rstrip_no_trailing: "is_space w \<Longrightarrow> \<not> suffix w (rstrip s)"
  using rstrip_rev_no_leading [of w "rev s"] by (simp add: rstrip_def suffix_to_prefix)

lemma py_strip_strips: "strips_to s (py_strip s)"
proof -
  obtain l where l: "ws_only l" "s = l @ lstrip s"
    using lstrip_decomp by blast
  obtain r where r: "ws_only r" "lstrip s = rstrip (lstrip s) @ r"
    using rstrip_decomp by blast
  from l(2) r(2) have "s = l @ py_strip s @ r" by (simp add: py_strip_def)
  with l(1) r(1) have decomp: "\<exists>l r. ws_only l \<and> ws_only r \<and> s = l @ py_strip s @ r" by blast
  have ends: "\<not> prefix w (py_strip s) \<and> \<not> suffix w (py_strip s)" if w: "is_space w" for w
  proof
    show "\<not> prefix w (py_strip s)"
    proof
      assume "prefix w (py_strip s)"
      moreover have "prefix (py_strip s) (lstrip s)"
        using r(2) by (metis prefixI py_strip_def)
      ultimately have "prefix w (lstrip s)" by (rule prefix_order.trans)
      with lstrip_no_leading [OF w] show False by blast
    qed
    show "\<not> suffix w (py_strip s)"
      using rstrip_no_trailing [OF w] by (simp add: py_strip_def)
  qed
  from decomp ends show ?thesis by (simp add: strips_to_def)
qed

subsection \<open>The coordinate pair of a reverse query\<close>

lemma unpack_pair_error: "length xs \<noteq> 2 \<Longrightarrow> \<exists>m. unpack_pair xs = Inl (ValueError m)"
  by (cases xs rule: unpack_pair.cases) auto

lemma reverse_pair_two:
  assumes "coerce query = Inr s" and "split_on CHR '','' s = [a, b]"
  shows "reverse_pair coerce query = Inr (py_strip a, py_strip b)"
  using assms by (simp add: reverse_pair_def)

lemma reverse_pair_reject:
  assumes "coerce query = Inr s" and "length (split_on CHR '','' s) \<noteq> 2"
  shows "reverse_pair coerce query = Inl (ValueError ''Must be a coordinate pair or Point'')"
proof -
  from assms(2) have "length (map py_strip (split_on CHR '','' s)) \<noteq> 2" by simp
  then obtain m where "unpack_pair (map py_strip (split_on CHR '','' s)) = Inl (ValueError m)"
    using unpack_pair_error by blast
  with assms(1) show ?thesis by (simp add: reverse_pair_def)
qed

lemma length_two: "length xs = 2 \<Longrightarrow> \<exists>a b. xs = [a, b]"
  by (auto simp: length_Suc_conv numeral_2_eq_2)

lemma url_query_forward:
  "url_query (api (GeocodeFarm_init key fmt) @ ''?'' @ q) = q"
  by (simp add: url_query_def GeocodeFarm_init_def)

lemma url_query_reverse:
  "url_query (reverse_api (GeocodeFarm_init key fmt) @ ''?'' @ q) = q"
  by (simp add: url_query_def GeocodeFarm_init_def)

lemma quote_plus_names:
  "quote_plus ''lat'' = ''lat''" "quote_plus ''lon'' = ''lon''"
  "quote_plus ''key'' = ''key''" "quote_plus ''addr'' = ''addr''"
  by (simp_all add: quote_plus_def quote_char_def always_safe_def)

lemma reverse_url_text:
  "reverse_api (GeocodeFarm_init key fmt) @ ''?'' @
     urlencode ((''lat'', x) # (''lon'', y) # key_param key) =
   ''https://www.geocode.farm/v3/json/reverse/?lat='' @ quote_plus x @ ''&lon='' @ quote_plus y @
     (case key of None \<Rightarrow> [] | Some k \<Rightarrow> if k = [] then [] else ''&key='' @ quote_plus k)"
  by (cases key) (simp_all add: GeocodeFarm_init_def urlencode_def quote_plus_names)

lemma forward_url_text:
  "api (GeocodeFarm_init key fmt) @ ''?'' @ urlencode ((''addr'', x) # key_param key) =
   ''https://www.geocode.farm/v3/json/forward/?addr='' @ quote_plus x @
     (case key of None \<Rightarrow> [] | Some k \<Rightarrow> if k = [] then [] else ''&key='' @ quote_plus k)"
  by (cases key) (simp_all add: GeocodeFarm_init_def urlencode_def quote_plus_names)

lemmas eval_defs = Let_def py_strip_def rstrip_def space1_def space2_def space3_def quote_plus_def quote_char_def always_safe_def
  parse_json_def

subsection \<open>C7: the forward URL decodes to its parameters\<close>

text \<open>
  C7: for every query and API key, when the template applied to the query gives
  \<open>formatted\<close>, \<open>geocode\<close> hands exactly one URL to the transport; its query string
  decodes to exactly \<open>addr = formatted\<close> when the key is \<open>None\<close> or empty, and to
  exactly \<open>addr = formatted, key = k\<close> when the key is the non-empty \<open>k\<close>. For the
  query \<open>Paris\<close>, the template \<open>%s\<close> and the key \<open>k1\<close> the decoded parameters
  are \<open>addr = Paris, key = k1\<close>.
\<close>

theorem geocode_url_round_trip:
  assumes "percent fmt query = Inr formatted"
  shows "(let url = ''https://www.geocode.farm/v3/json/forward/?addr='' @ quote_plus formatted @
                      (case key of None \<Rightarrow> []
                       | Some k \<Rightarrow> if k = [] then [] else ''&key='' @ quote_plus k)
          in snd (geocode (GeocodeFarm_init key fmt) pf percent call_geocoder query exactly_one) = [url]
           \<and> (key = None \<or> key = Some [] \<longrightarrow> parse_qsl (url_query url) = [(''addr'', formatted)])
           \<and> (\<forall>k. key = Some k \<and> k \<noteq> [] \<longrightarrow>
                 parse_qsl (url_query url) = [(''addr'', formatted), (''key'', k)]))"
proof -
  let ?g = "GeocodeFarm_init key fmt"
  let ?params = "(''addr'', formatted) # key_param key"
  let ?url = "api ?g @ ''?'' @ urlencode ?params"
  have fmt: "format_string ?g = fmt" and k: "api_key ?g = key"
    by (simp_all add: GeocodeFarm_init_def)
  have run: "snd (geocode ?g pf percent call_geocoder query exactly_one) = [?url]"
    using assms unfolding geocode_def fmt k by (simp add: Let_def)
  have decode: "parse_qsl (url_query ?url) = ?params"
    unfolding url_query_forward by (rule parse_qsl_urlencode)
  from run decode show ?thesis
    unfolding forward_url_text Let_def by auto
qed

theorem geocode_url_round_trip_witness:
  "snd (geocode (GeocodeFarm_init (Some ''k1'') ''%s'') float_of_json percent_s
          (\<lambda>u. Inr JNull) ''Paris'' True) =
     [''https://www.geocode.farm/v3/json/forward/?addr=Paris&key=k1'']
   \<and> parse_qsl (url_query ''https://www.geocode.farm/v3/json/forward/?addr=Paris&key=k1'') =
     [(''addr'', ''Paris''), (''key'', ''k1'')]
   \<and> snd (geocode (GeocodeFarm_init None ''%s'') float_of_json percent_s
          (\<lambda>u. Inr JNull) ''221B Baker St'' True) =
     [''https://www.geocode.farm/v3/json/forward/?addr=221B+Baker+St'']
   \<and> parse_qsl (url_query ''https://www.geocode.farm/v3/json/forward/?addr=221B+Baker+St'') =
     [(''addr'', ''221B Baker St'')]"
proof -
  have a: "percent_s ''%s'' ''Paris'' = Inr ''Paris''"
    and b: "percent_s ''%s'' ''221B Baker St'' = Inr ''221B Baker St''"
    by (simp_all add: percent_s_def)
  show ?thesis
    using geocode_url_round_trip [where percent = percent_s and fmt = "''%s''"
        and query = "''Paris''" and formatted = "''Paris''" and key = "Some ''k1''"
        and pf = float_of_json and call_geocoder = "\<lambda>u. Inr JNull" and exactly_one = True]
      geocode_url_round_trip [where percent = percent_s and fmt = "''%s''"
        and query = "''221B Baker St''" and formatted = "''221B Baker St''" and key = None
        and pf = float_of_json and call_geocoder = "\<lambda>u. Inr JNull" and exactly_one = True]
      a b
    by (simp add: eval_defs)
qed

subsection \<open>C5: the reverse query\<close>

text \<open>
  C5: for every reverse query whose canonical string is \<open>s\<close>: if splitting \<open>s\<close> at
  the commas gives exactly two parts, \<open>reverse\<close> trims the whitespace from each part
  (what is left is the part without a run of whitespace characters at each end, and
  neither begins nor ends with one) and hands the transport the one URL
  \<open>...reverse/?lat=<part1>&lon=<part2>\<close> (quoted, followed by the key when there is
  one), whose query string decodes to \<open>lat\<close> and \<open>lon\<close> with the two trimmed parts;
  if it does not give exactly two parts, \<open>reverse\<close> raises \<open>ValueError\<close> with the
  message \<open>Must be a coordinate pair or Point\<close> and the transport is handed no URL.
\<close>

theorem reverse_two_parts:
  assumes "coerce query = Inr s"
  shows "(\<forall>a b. split_on CHR '','' s = [a, b] \<longrightarrow>
            (let url = ''https://www.geocode.farm/v3/json/reverse/?lat='' @ quote_plus (py_strip a) @
                         ''&lon='' @ quote_plus (py_strip b) @
                         (case key of None \<Rightarrow> []
                          | Some k \<Rightarrow> if k = [] then [] else ''&key='' @ quote_plus k)
             in reverse (GeocodeFarm_init key fmt) pf coerce call_geocoder query exactly_one =
                  (bind (call_geocoder url) (\<lambda>body. parse_json pf body exactly_one), [url])
                \<and> parse_qsl (url_query url) =
                     (''lat'', py_strip a) # (''lon'', py_strip b) # key_param key
                \<and> strips_to a (py_strip a) \<and> strips_to b (py_strip b)))
       \<and> (length (split_on CHR '','' s) \<noteq> 2 \<longrightarrow>
            reverse (GeocodeFarm_init key fmt) pf coerce call_geocoder query exactly_one =
              (Inl (ValueError ''Must be a coordinate pair or Point''), []))"
proof (intro conjI allI impI)
  fix a b
  assume two: "split_on CHR '','' s = [a, b]"
  let ?g = "GeocodeFarm_init key fmt"
  let ?params = "(''lat'', py_strip a) # (''lon'', py_strip b) # key_param key"
  let ?url = "reverse_api ?g @ ''?'' @ urlencode ?params"
  have k: "api_key ?g = key" by (simp add: GeocodeFarm_init_def)
  have rp: "reverse_pair coerce query = Inr (py_strip a, py_strip b)"
    using assms two by (rule reverse_pair_two)
  have run: "reverse ?g pf coerce call_geocoder query exactly_one =
          (bind (call_geocoder ?url) (\<lambda>body. parse_json pf body exactly_one), [?url])"
    unfolding reverse_def rp k by (simp add: Let_def)
  have decode: "parse_qsl (url_query ?url) = ?params"
    unfolding url_query_reverse by (rule parse_qsl_urlencode)
  from run decode py_strip_strips [of a] py_strip_strips [of b]
  show "let url = ''https://www.geocode.farm/v3/json/reverse/?lat='' @ quote_plus (py_strip a) @
                         ''&lon='' @ quote_plus (py_strip b) @
                         (case key of None \<Rightarrow> []
                          | Some k \<Rightarrow> if k = [] then [] else ''&key='' @ quote_plus k)
             in reverse ?g pf coerce call_geocoder query exactly_one =
                  (bind (call_geocoder url) (\<lambda>body. parse_json pf body exactly_one), [url])
                \<and> parse_qsl (url_query url) = ?params
                \<and> strips_to a (py_strip a) \<and> strips_to b (py_strip b)"
    unfolding reverse_url_text Let_def by simp
next
  assume "length (split_on CHR '','' s) \<noteq> 2"
  with assms have "reverse_pair coerce query = Inl (ValueError ''Must be a coordinate pair or Point'')"
    by (rule reverse_pair_reject)
  then show "reverse (GeocodeFarm_init key fmt) pf coerce call_geocoder query exactly_one =
              (Inl (ValueError ''Must be a coordinate pair or Point''), [])"
    by (simp add: reverse_def)
qed

text \<open>
  The witness has an ASCII blank and a no-break space (U+00A0, the bytes \<open>C2 A0\<close>)
  after the latitude and a blank before the longitude; a second query has three parts.
\<close>

theorem reverse_two_parts_witness:
  "reverse (GeocodeFarm_init (Some ''k1'') ''%s'') float_of_json Inr (\<lambda>u. Inr JNull)
     (''51.5 '' @ [char_of (0xC2 :: nat), char_of (0xA0 :: nat)] @ '', -0.1'') True =
     (Inr RNone, [''https://www.geocode.farm/v3/json/reverse/?lat=51.5&lon=-0.1&key=k1''])
   \<and> reverse (GeocodeFarm_init (Some ''k1'') ''%s'') float_of_json Inr (\<lambda>u. Inr JNull)
     ''1,2,3'' True = (Inl (ValueError ''Must be a coordinate pair or Point''), [])"
proof
  let ?q = "''51.5 '' @ [char_of (0xC2 :: nat), char_of (0xA0 :: nat)] @ '', -0.1''"
  have split: "split_on CHR '','' ?q =
      [''51.5 '' @ [char_of (0xC2 :: nat), char_of (0xA0 :: nat)], '' -0.1'']"
    by (simp add: char_of_def)
  have strip: "py_strip (''51.5 '' @ [char_of (0xC2 :: nat), char_of (0xA0 :: nat)]) = ''51.5''"
    "py_strip '' -0.1'' = ''-0.1''"
    by (simp_all add: py_strip_def rstrip_def space1_def space2_def space3_def)
  show "reverse (GeocodeFarm_init (Some ''k1'') ''%s'') float_of_json Inr (\<lambda>u. Inr JNull)
     ?q True =
     (Inr RNone, [''https://www.geocode.farm/v3/json/reverse/?lat=51.5&lon=-0.1&key=k1''])"
    using reverse_two_parts [where coerce = Inr and query = ?q and s = ?q
        and key = "Some ''k1''" and fmt = "''%s''" and pf = float_of_json
        and call_geocoder = "\<lambda>u. Inr JNull" and exactly_one = True]
    unfolding split by (simp add: strip eval_defs)
  show "reverse (GeocodeFarm_init (Some ''k1'') ''%s'') float_of_json Inr (\<lambda>u. Inr JNull)
     ''1,2,3'' True = (Inl (ValueError ''Must be a coordinate pair or Point''), [])"
    using reverse_two_parts [where coerce = Inr and query = "''1,2,3''" and s = "''1,2,3''"
        and key = "Some ''k1''" and fmt = "''%s''" and pf = float_of_json
        and call_geocoder = "\<lambda>u. Inr JNull" and exactly_one = True]
    by simp
qed

subsection \<open>C6: which reverse queries are rejected\<close>

text \<open>
  C6 as the spec states it: a reverse query that is not two comma-separated numeric
  components is rejected as malformed input and not forwarded; in particular a two-part
  query whose parts are not numeric. \<open>reverse\<close> counts the parts and never looks
  into them: the canonical string \<open>foo, bar\<close> is forwarded to the service as
  \<open>lat=foo&lon=bar\<close>.
\<close>

theorem reverse_non_numeric_counterexample:
  "reverse (GeocodeFarm_init None ''%s'') float_of_json Inr (\<lambda>u. Inr JNull) ''foo, bar'' True =
     (Inr RNone, [''https://www.geocode.farm/v3/json/reverse/?lat=foo&lon=bar''])"
  by (simp add: reverse_def reverse_pair_def GeocodeFarm_init_def urlencode_def eval_defs)

text \<open>
  C6, amended: for every reverse query with canonical string \<open>s\<close>, the query is
  rejected with the \<open>ValueError\<close> \<open>Must be a coordinate pair or Point\<close>, and
  nothing is forwarded to the service, exactly when splitting \<open>s\<close> at the commas
  does not give two parts; a query of two parts is forwarded, in one request, whatever
  the parts are, and the outcome is that of interpreting the response.
\<close>

theorem reverse_forwards_iff:
  assumes "coerce query = Inr s"
  shows "(snd (reverse self pf coerce call_geocoder query exactly_one) = []
            \<longleftrightarrow> length (split_on CHR '','' s) \<noteq> 2)
       \<and> (length (split_on CHR '','' s) \<noteq> 2 \<longrightarrow>
            fst (reverse self pf coerce call_geocoder query exactly_one) =
              Inl (ValueError ''Must be a coordinate pair or Point''))
       \<and> (length (split_on CHR '','' s) = 2 \<longrightarrow>
            (\<exists>url. snd (reverse self pf coerce call_geocoder query exactly_one) = [url] \<and>
                   fst (reverse self pf coerce call_geocoder query exactly_one) =
                     bind (call_geocoder url) (\<lambda>body. parse_json pf body exactly_one)))"
proof (cases "length (split_on CHR '','' s) = 2")
  case True
  then obtain a b where "split_on CHR '','' s = [a, b]"
    using length_two by blast
  with assms have "reverse_pair coerce query = Inr (py_strip a, py_strip b)"
    by (rule reverse_pair_two)
  with True show ?thesis
    by (simp add: reverse_def Let_def)
next
  case False
  with assms have "reverse_pair coerce query = Inl (ValueError ''Must be a coordinate pair or Point'')"
    by (rule reverse_pair_reject)
  with False show ?thesis
    by (simp add: reverse_def)
qed

theorem reverse_forwards_iff_witness:
  "snd (reverse (GeocodeFarm_init None ''%s'') float_of_json Inr (\<lambda>u. Inr JNull) ''foo, bar'' True) \<noteq> []
   \<and> reverse (GeocodeFarm_init None ''%s'') float_of_json Inr (\<lambda>u. Inr JNull) ''51.5'' True =
       (Inl (ValueError ''Must be a coordinate pair or Point''), [])"
proof
  show "snd (reverse (GeocodeFarm_init None ''%s'') float_of_json Inr (\<lambda>u. Inr JNull) ''foo, bar'' True) \<noteq> []"
    using reverse_forwards_iff [where coerce = Inr and query = "''foo, bar''" and s = "''foo, bar''"
        and self = "GeocodeFarm_init None ''%s''" and pf = float_of_json
        and call_geocoder = "\<lambda>u. Inr JNull" and exactly_one = True]
    by simp
  show "reverse (GeocodeFarm_init None ''%s'') float_of_json Inr (\<lambda>u. Inr JNull) ''51.5'' True =
       (Inl (ValueError ''Must be a coordinate pair or Point''), [])"
    using reverse_forwards_iff [where coerce = Inr and query = "''51.5''" and s = "''51.5''"
        and self = "GeocodeFarm_init None ''%s''" and pf = float_of_json
        and call_geocoder = "\<lambda>u. Inr JNull" and exactly_one = True]
    by (simp add: prod_eq_iff)
qed

end
